theory Spec2Isabelle
  imports Complex_Main "HOL-Library.Word"
begin

section \<open>Python exceptions\<close>

text \<open>
  Every raise of the modelled code is a value of \<open>py_error\<close>; a function that can raise
  returns \<open>py_error + 'a\<close> with \<open>Inl\<close> for the exception.
\<close>

datatype py_error =
    UnboundLocalError string
  | NameError string
  | KeyError string
  | AssertionError
  | ValueError
  | IndexError
  | ZeroDivisionError
  | TypeError
  | LuaError
  | OtherException string

section \<open>The dtype probe around the tensor-rebuild operation (generic\_hf\_torch.py)\<close>

datatype torch_dtype = Float16 | BFloat16 | Float32 | Float64 | Int8 | Int32 | Int64 | UInt8 | Bool

text \<open>
  A \<open>LazyTensor\<close> carries a storage class. The attribute \<open>dtype\<close> of the class is read
  first (\<open>class_dtype\<close>); when it is not a \<open>torch.dtype\<close> (\<open>None\<close> here), the class is
  instantiated with size 0 and the instance's dtype is read (\<open>instance_dtype\<close>).
\<close>

record storage_type =
  class_dtype :: "torch_dtype option"
  instance_dtype :: torch_dtype

datatype storage =
    Storage torch_dtype
  | LazyTensor storage_type

fun storage_dtype :: "storage \<Rightarrow> torch_dtype" where
  "storage_dtype (Storage d) = d"
| "storage_dtype (LazyTensor t) =
     (case class_dtype t of Some d \<Rightarrow> d | None \<Rightarrow> instance_dtype t)"

text \<open>
  \<open>new_rebuild_tensor\<close>: the state is the process-wide flag \<open>fp32_model\<close>; the original
  operation \<open>old_rebuild_tensor\<close> is a parameter and its result is returned as it is.
\<close>

definition new_rebuild_tensor ::
  "(storage \<Rightarrow> int \<Rightarrow> nat list \<Rightarrow> int list \<Rightarrow> 'r) \<Rightarrow> bool \<Rightarrow>
     storage \<Rightarrow> int \<Rightarrow> nat list \<Rightarrow> int list \<Rightarrow> bool \<times> 'r" where
  "new_rebuild_tensor old_rebuild_tensor fp32_model storage storage_offset shape stride =
     (let dtype = storage_dtype storage;
          fp32_model' = (if dtype = Float32 \<and> length shape \<ge> 2 then True else fp32_model)
      in (fp32_model', old_rebuild_tensor storage storage_offset shape stride))"

section \<open>The settings callback of the TPU backend (hf\_mtj.py)\<close>

record sampler_vars =
  sampler_order :: "int list"
  top_p :: real
  temp :: real
  top_k :: int
  tfs :: real
  typical :: real
  top_a :: real
  rep_pen :: real
  rep_pen_slope :: real
  rep_pen_range :: int

datatype setting = SList "int list" | SFloat real | SInt int

text \<open>
  \<open>mtj_settings_callback\<close> copies the configured order into a local, prepends 6 to the
  local when it is shorter than 7, and builds the dictionary. The dictionary's
  \<open>sampler_order\<close> entry is read from the settings object, not from the local.
\<close>

definition mtj_settings_callback :: "sampler_vars \<Rightarrow> (string \<times> setting) list" where
  "mtj_settings_callback vars =
     (let sampler_order0 = sampler_order vars;
          sampler_order1 = (if length sampler_order0 < 7 then [6] @ sampler_order0 else sampler_order0)
      in [(''sampler_order'', SList (sampler_order vars)),
          (''top_p'', SFloat (top_p vars)),
          (''temp'', SFloat (temp vars)),
          (''top_k'', SInt (top_k vars)),
          (''tfs'', SFloat (tfs vars)),
          (''typical'', SFloat (typical vars)),
          (''top_a'', SFloat (top_a vars)),
          (''repetition_penalty'', SFloat (rep_pen vars)),
          (''rpslope'', SFloat (rep_pen_slope vars)),
          (''rprange'', SInt (rep_pen_range vars))])"

section \<open>Saving a downloaded model (generic\_hf\_torch.py, \_load, lines 123 to 225)\<close>

text \<open>
  The download cache and the local model folder, each a map from file names to contents.
  \<open>hf_hub_download\<close> is called with \<open>local_files_only=True\<close>: it returns the cached
  file, or raises when the cache has no such file. \<open>shutil.move\<close> then takes the file
  out of the cache and puts it under the same name in the local model folder.
\<close>

record 'b files =
  cache :: "string \<rightharpoonup> 'b"
  local_path :: "string \<rightharpoonup> 'b"

definition hf_hub_download_move :: "string \<Rightarrow> 'b files \<Rightarrow> py_error + 'b files" where
  "hf_hub_download_move name fs =
     (case cache fs name of
        None \<Rightarrow> Inl (OtherException name)
      | Some b \<Rightarrow> Inr (fs\<lparr>cache := (cache fs)(name := None),
                          local_path := (local_path fs)(name \<mapsto> b)\<rparr>))"

text \<open>
  The file names of the transformers library, as the comments of the source name them
  (lines 145, 164 and 197).
\<close>

definition CONFIG_NAME :: string where
  "CONFIG_NAME = ''config.json''"

definition WEIGHTS_NAME :: string where
  "WEIGHTS_NAME = ''pytorch_model.bin''"

definition WEIGHTS_INDEX_NAME :: string where
  "WEIGHTS_INDEX_NAME = ''pytorch_model.bin.index.json''"

text \<open>
  The loop over the possible weight names (lines 165 to 190): each name is fetched and
  moved inside a \<open>try\<close>; an exception is raised again only when the name is
  \<open>model.safetensors\<close>, otherwise it is dropped and the loop goes on. There is no
  \<open>break\<close>: after a name that succeeds the loop goes on to the next name too.
  The operation that fetches and moves is a parameter.
\<close>

fun save_weight_files ::
  "(string \<Rightarrow> 'fs \<Rightarrow> py_error + 'fs) \<Rightarrow> string list \<Rightarrow> 'fs \<Rightarrow> py_error + 'fs" where
  "save_weight_files mv [] fs = Inr fs"
| "save_weight_files mv (possible_weight_name # rest) fs =
     (case mv possible_weight_name fs of
        Inr fs' \<Rightarrow> save_weight_files mv rest fs'
      | Inl e \<Rightarrow>
          (if possible_weight_name = ''model.safetensors'' then Inl e
           else save_weight_files mv rest fs))"

definition save_unsharded ::
  "(string \<Rightarrow> 'fs \<Rightarrow> py_error + 'fs) \<Rightarrow> 'fs \<Rightarrow> py_error + 'fs" where
  "save_unsharded mv fs = save_weight_files mv [WEIGHTS_NAME, ''model.safetensors''] fs"

text \<open>The shards of a sharded model (lines 206 to 224): any failure propagates.\<close>

fun move_all ::
  "(string \<Rightarrow> 'fs \<Rightarrow> py_error + 'fs) \<Rightarrow> string list \<Rightarrow> 'fs \<Rightarrow> py_error + 'fs" where
  "move_all mv [] fs = Inr fs"
| "move_all mv (filename # rest) fs =
     (case mv filename fs of Inl e \<Rightarrow> Inl e | Inr fs' \<Rightarrow> move_all mv rest fs')"

text \<open>
  What the save step leaves behind: the files, and whether the model object was
  converted with \<open>half()\<close> and written with \<open>save_pretrained\<close>.
\<close>

record 'b saved =
  saved_files :: "'b files"
  tokenizer_saved :: bool
  model_halved :: bool
  model_save_pretrained :: bool

text \<open>
  The save step of a downloaded model. \<open>disk_blocks\<close> is \<open>breakmodel.disk_blocks\<close>
  (\<open>not disk_blocks\<close> is \<open>disk_blocks = 0\<close>); \<open>num_shards\<close> is \<open>utils.num_shards\<close>;
  \<open>filenames\<close> are the values of the index file's weight map, which the source
  turns into a set (line 196): each name is moved once, here in the order of its first
  occurrence (a Python set has no order of its own). The index file, which the source
  moves from its own path, is a file of the cache here. In the fp32 branch the
  source reads the name \<open>model\<close> (line 132, \<open>model = model.half()\<close>). The assignment
  makes \<open>model\<close> a local variable of \<open>_load\<close>, nothing assigns it before, and the
  loaded model is in \<open>self.model\<close>: the read raises \<open>UnboundLocalError\<close>.
\<close>

definition save_downloaded_model ::
  "bool \<Rightarrow> bool \<Rightarrow> int \<Rightarrow> nat option \<Rightarrow> string list \<Rightarrow> 'b files \<Rightarrow> py_error + 'b saved" where
  "save_downloaded_model save_model fp32_model disk_blocks num_shards filenames fs =
     (if \<not> save_model then
        Inr \<lparr>saved_files = fs, tokenizer_saved = False, model_halved = False,
             model_save_pretrained = False\<rparr>
      else if fp32_model \<and> disk_blocks = 0 then Inl (UnboundLocalError ''model'')
      else
        (case hf_hub_download_move CONFIG_NAME fs of
           Inl e \<Rightarrow> Inl e
         | Inr fs1 \<Rightarrow>
             (case (if num_shards = None then save_unsharded hf_hub_download_move fs1
                    else move_all hf_hub_download_move (WEIGHTS_INDEX_NAME # remdups filenames) fs1) of
                Inl e \<Rightarrow> Inl e
              | Inr fs2 \<Rightarrow>
                  Inr \<lparr>saved_files = fs2\<lparr>cache := Map.empty\<rparr>, tokenizer_saved = True,
                       model_halved = False, model_save_pretrained = False\<rparr>)))"

section \<open>The final device placement (generic\_hf\_torch.py, \_load, lines 240 to 260)\<close>

record placement_vars =
  hascuda :: bool
  usegpu :: bool
  breakmodel :: bool
  lazy_load :: bool
  disk_blocks :: int

datatype device = GpuDevice | Cpu

datatype model_op = Half | To device | FloatOp | MoveToDevices

text \<open>
  The operations applied to \<open>self.model\<close>, in order. In the \<open>breakmodel\<close> branch with
  lazy loading off, the source calls \<open>self.breakmodel_device_config(model.config)\<close>
  (line 247): \<open>model\<close> is the unassigned local of line 132, so the read raises.
  The branch \<open>disk_blocks > 0\<close> is written twice in the source (lines 249 and 252).
\<close>

definition final_placement :: "placement_vars \<Rightarrow> py_error + model_op list" where
  "final_placement v =
     (if hascuda v then
        (if usegpu v then Inr [Half, To GpuDevice]
         else if breakmodel v then
           (if \<not> lazy_load v then Inl (UnboundLocalError ''model'')
            else Inr [MoveToDevices])
         else if disk_blocks v > 0 then Inr [MoveToDevices]
         else if disk_blocks v > 0 then Inr [MoveToDevices]
         else Inr [To Cpu, FloatOp])
      else if disk_blocks v > 0 then Inr [MoveToDevices]
      else Inr [To Cpu, FloatOp])"

section \<open>The bad-words derivation (generic\_hf\_torch.py lines 227 to 236, hf\_mtj.py lines 200 to 209)\<close>

text \<open>
  \<open>badwordsids_is_default\<close> stands for the identity test
  \<open>badwordsids is koboldai_settings.badwordsids_default\<close>. The vocabulary is the
  dictionary of the tokenizer, as the list of its items in iteration order.
\<close>

record badwords_vars =
  badwordsids :: "int list list"
  badwordsids_is_default :: bool
  model_type :: string
  newlinemode :: string

definition any_special :: "string \<Rightarrow> bool" where
  "any_special k = list_ex (\<lambda>c. c \<in> set k) ''<>[]''"

definition derive_badwordsids :: "badwords_vars \<Rightarrow> (string \<times> int) list \<Rightarrow> badwords_vars" where
  "derive_badwordsids vars vocab =
     (if badwordsids_is_default vars
         \<and> model_type vars \<notin> set [''gpt2'', ''gpt_neo'', ''gptj'']
      then vars\<lparr>badwordsids :=
                  map (\<lambda>(k, v). [v])
                    (filter (\<lambda>(k, v). newlinemode vars \<noteq> ''s'' \<or> k \<noteq> ''</s>'')
                       (filter (\<lambda>(k, v). any_special k) vocab)),
                badwordsids_is_default := False\<rparr>
      else vars)"

section \<open>The score-rewriting hook (hf\_mtj.py, mtj\_warper\_callback)\<close>

datatype np_dtype = NpFloat16 | NpFloat32 | NpFloat64

text \<open>
  A numeric array: its shape, its dtype and, for the arrays of this hook, its rows
  (\<open>tolist()\<close> of the batch of score rows that the backend passes).
\<close>

record ndarray =
  shape :: "nat list"
  dtype :: np_dtype
  rows :: "real list list"

text \<open>
  A Lua table is the list of its key-value pairs in iteration order;
  \<open>lua_state.table(*row)\<close> numbers the values from 1.
\<close>

definition lua_table :: "'v list \<Rightarrow> (nat \<times> 'v) list" where
  "lua_table xs = zip [1..<Suc (length xs)] xs"

definition table_values :: "(nat \<times> 'v) list \<Rightarrow> 'v list" where
  "table_values t = map snd t"

record lua_koboldbridge =
  logits :: "(nat \<times> (nat \<times> real) list) list"
  vocab_size :: nat

text \<open>
  \<open>np.array\<close> of a tuple of tuples with a numeric dtype: no rows give shape \<open>(0,)\<close>,
  rows of one length \<open>m\<close> give shape \<open>(k, m)\<close>, rows of different lengths raise
  \<open>ValueError\<close>.
\<close>

definition np_array :: "real list list \<Rightarrow> np_dtype \<Rightarrow> py_error + ndarray" where
  "np_array rs dt =
     (case rs of
        [] \<Rightarrow> Inr \<lparr>shape = [0], dtype = dt, rows = []\<rparr>
      | r # rest \<Rightarrow>
          (if list_all (\<lambda>x. length x = length r) rest
           then Inr \<lparr>shape = [length rs, length r], dtype = dt, rows = rs\<rparr>
           else Inl ValueError))"

text \<open>
  The hook. \<open>execute_genmod\<close> is the external script, which reads and rewrites the
  bridge and may raise. \<open>scores_shape[-1]\<close> raises on an empty shape.
\<close>

definition mtj_warper_callback ::
  "(lua_koboldbridge \<Rightarrow> py_error + lua_koboldbridge) \<Rightarrow> lua_koboldbridge \<Rightarrow> ndarray
     \<Rightarrow> py_error + (lua_koboldbridge \<times> ndarray)" where
  "mtj_warper_callback execute_genmod bridge scores =
     (let scores_shape = shape scores;
          scores_list = rows scores;
          bridge1 = bridge\<lparr>logits := lua_table (map lua_table scores_list)\<rparr>
      in if scores_shape = [] then Inl IndexError
         else
           (case execute_genmod (bridge1\<lparr>vocab_size := last scores_shape\<rparr>) of
              Inl e \<Rightarrow> Inl e
            | Inr bridge2 \<Rightarrow>
                (case np_array (map table_values (table_values (logits bridge2))) (dtype scores) of
                   Inl e \<Rightarrow> Inl e
                 | Inr scores' \<Rightarrow>
                     (if shape scores' = scores_shape then Inr (bridge2, scores')
                      else Inl AssertionError))))"

section \<open>The stopping-decision hook (hf\_mtj.py, mtj\_stopping\_callback)\<close>

record stopping_vars =
  abort :: bool
  generating :: bool
  regeneration_required :: bool
  generated_tkns :: int
  genamt :: int
  numseqs :: int
  dynamicscan :: bool
  lua_generated :: "int \<rightharpoonup> (int \<rightharpoonup> int)"

text \<open>
  \<open>generated[i, j]\<close> on a two-dimensional array: an index outside the array raises, a
  negative index counts from the end.
\<close>

definition np_index :: "'a list \<Rightarrow> int \<Rightarrow> py_error + 'a" where
  "np_index xs i =
     (let n = int (length xs); j = (if i < 0 then n + i else i)
      in if 0 \<le> j \<and> j < n then Inr (xs ! nat j) else Inl IndexError)"

definition np_index2 :: "int list list \<Rightarrow> int \<Rightarrow> int \<Rightarrow> py_error + int" where
  "np_index2 a i j =
     (case np_index a i of Inl e \<Rightarrow> Inl e | Inr row \<Rightarrow> np_index row j)"

text \<open>
  The loop over \<open>range(numseqs)\<close> (lines 89 to 94): the right-hand side is evaluated
  first; assigning into a row that the Lua table does not have fails.
\<close>

fun store_generated ::
  "int list list \<Rightarrow> int \<Rightarrow> int \<Rightarrow> nat list \<Rightarrow> (int \<rightharpoonup> (int \<rightharpoonup> int))
     \<Rightarrow> py_error + (int \<rightharpoonup> (int \<rightharpoonup> int))" where
  "store_generated generated col tkns [] tbl = Inr tbl"
| "store_generated generated col tkns (i # rest) tbl =
     (case np_index2 generated (int i) col of
        Inl e \<Rightarrow> Inl e
      | Inr tok \<Rightarrow>
          (case tbl (int i + 1) of
             None \<Rightarrow> Inl TypeError
           | Some row \<Rightarrow>
               store_generated generated col tkns rest
                 (tbl(int i + 1 \<mapsto> row(tkns \<mapsto> tok)))))"

text \<open>
  The hook. \<open>seq\<close> is \<open>tpu_mtj_backend.params["seq"]\<close>. After the early return the
  source loops over the rows of \<open>generated\<close> and reads \<open>past[i]\<close> first of all; \<open>past\<close>
  is declared \<open>global\<close> and defined nowhere, so the first iteration raises \<open>NameError\<close>.
\<close>

definition mtj_stopping_callback ::
  "stopping_vars \<Rightarrow> int \<Rightarrow> int list list \<Rightarrow> int \<Rightarrow> 'w set list
     \<Rightarrow> py_error + (stopping_vars \<times> 'w set list \<times> bool \<times> bool)" where
  "mtj_stopping_callback vars seq generated n_generated excluded_world_info =
     (let vars1 = vars\<lparr>generated_tkns := generated_tkns vars + 1\<rparr>
      in if length excluded_world_info \<noteq> length generated then Inl AssertionError
         else
           (let regeneration_required' = regeneration_required vars1;
                halt = (abort vars1 \<or> \<not> generating vars1 \<or> generated_tkns vars1 \<ge> genamt vars1);
                vars2 = vars1\<lparr>regeneration_required := False\<rparr>
            in case store_generated generated (seq + n_generated - 1) (generated_tkns vars2)
                      [0..<nat (numseqs vars2)] (lua_generated vars2) of
                 Inl e \<Rightarrow> Inl e
               | Inr tbl \<Rightarrow>
                   (let vars3 = vars2\<lparr>lua_generated := tbl\<rparr>
                    in if \<not> dynamicscan vars3 \<or> halt
                       then Inr (vars3, excluded_world_info, regeneration_required', halt)
                       else
                         (case generated of
                            [] \<Rightarrow> Inr (vars3, excluded_world_info, regeneration_required', halt)
                          | t # ts \<Rightarrow> Inl (NameError ''past'')))))"

section \<open>Soft tokens (hf\_mtj.py, get\_soft\_tokens)\<close>

text \<open>\<open>tpu_mtj_backend.params\<close> is a dictionary; a missing key raises \<open>KeyError\<close>.\<close>

definition getitem :: "(string \<rightharpoonup> int) \<Rightarrow> string \<Rightarrow> py_error + int" where
  "getitem params k = (case params k of None \<Rightarrow> Inl (KeyError k) | Some v \<Rightarrow> Inr v)"

definition bind_result :: "py_error + 'a \<Rightarrow> ('a \<Rightarrow> py_error + 'b) \<Rightarrow> py_error + 'b" where
  "bind_result m f = (case m of Inl e \<Rightarrow> Inl e | Inr x \<Rightarrow> f x)"

text \<open>A float32 tensor: its shape and its elements in row-major order.\<close>

record tensor =
  t_shape :: "nat list"
  t_data :: "real list"

definition np_zeros2 :: "int \<Rightarrow> int \<Rightarrow> py_error + tensor" where
  "np_zeros2 r c =
     (if r < 0 \<or> c < 0 then Inl ValueError
      else Inr \<lparr>t_shape = [nat r, nat c], t_data = replicate (nat r * nat c) 0\<rparr>)"

text \<open>\<open>np.pad(tensor, ((0, p), (0, 0)))\<close>: \<open>p\<close> rows of zeros after the last row.\<close>

definition np_pad_rows :: "tensor \<Rightarrow> int \<Rightarrow> py_error + tensor" where
  "np_pad_rows t p =
     (if p < 0 then Inl ValueError
      else
        (case t_shape t of
           [r, c] \<Rightarrow> Inr \<lparr>t_shape = [r + nat p, c], t_data = t_data t @ replicate (nat p * c) 0\<rparr>
         | _ \<Rightarrow> Inl ValueError))"

text \<open>
  \<open>tensor.reshape(a, -1, c)\<close>: the middle dimension is the size divided by \<open>a * c\<close>;
  a negative \<open>a\<close> or \<open>c\<close>, a product 0 and a size that \<open>a * c\<close> does not divide raise.
\<close>

definition np_reshape3 :: "tensor \<Rightarrow> int \<Rightarrow> int \<Rightarrow> py_error + tensor" where
  "np_reshape3 t a c =
     (let size = length (t_data t); known = nat a * nat c
      in if a < 0 \<or> c < 0 \<or> known = 0 \<or> size mod known \<noteq> 0 then Inl ValueError
         else Inr \<lparr>t_shape = [nat a, size div known, nat c], t_data = t_data t\<rparr>)"

text \<open>
  \<open>params.get("d_embed", params["d_model"])\<close>: the default is evaluated first, so a
  missing \<open>d_model\<close> raises also when \<open>d_embed\<close> is there.
\<close>

definition embed_width :: "(string \<rightharpoonup> int) \<Rightarrow> py_error + int" where
  "embed_width params =
     bind_result (getitem params ''d_model'')
       (\<lambda>d_model. Inr (case params ''d_embed'' of Some d \<Rightarrow> d | None \<Rightarrow> d_model))"

text \<open>Python's \<open>a % b\<close> (the sign of the result is the sign of \<open>b\<close>), raising on 0.\<close>

definition py_mod :: "int \<Rightarrow> int \<Rightarrow> py_error + int" where
  "py_mod a b = (if b = 0 then Inl ZeroDivisionError else Inr (a mod b))"

text \<open>The placeholder after \<open>np.pad\<close> (lines 215 to 233).\<close>

definition padded_placeholder :: "(string \<rightharpoonup> int) \<Rightarrow> py_error + tensor" where
  "padded_placeholder params =
     bind_result (embed_width params) (\<lambda>width.
     bind_result (np_zeros2 1 width) (\<lambda>tensor.
     let rows = (case t_shape tensor of [] \<Rightarrow> 0 | r # _ \<Rightarrow> int r) in
     bind_result (getitem params ''seq'') (\<lambda>seq.
     bind_result (getitem params ''cores_per_replica'') (\<lambda>cores.
     bind_result (py_mod seq (- cores)) (\<lambda>m.
     let padding_amount = seq - m - rows in
     np_pad_rows tensor padding_amount)))))"

text \<open>The placeholder after the reshape (lines 234 to 240).\<close>

definition soft_placeholder :: "(string \<rightharpoonup> int) \<Rightarrow> py_error + tensor" where
  "soft_placeholder params =
     bind_result (padded_placeholder params) (\<lambda>tensor.
     bind_result (getitem params ''cores_per_replica'') (\<lambda>cores.
     bind_result (embed_width params) (\<lambda>width.
     np_reshape3 tensor cores width)))"

text \<open>
  \<open>np.arange(start, stop, dtype=np.uint32)\<close>: the integers from \<open>start\<close> up to
  \<open>stop - 1\<close> as 32-bit unsigned values (exact when they lie in the range of the type).
\<close>

definition np_arange_uint32 :: "int \<Rightarrow> int \<Rightarrow> 32 word list" where
  "np_arange_uint32 start stop = map word_of_int [start..stop - 1]"

text \<open>
  \<open>get_soft_tokens\<close>: \<open>sp\<close> and \<open>sp_length\<close> are the soft prompt and its length in the
  settings object; \<open>shard_xmap\<close> is the backend's sharding operation. The result is the
  new \<open>sp\<close> and the array of soft token ids.
\<close>

definition get_soft_tokens ::
  "(string \<rightharpoonup> int) \<Rightarrow> (tensor \<Rightarrow> 's) \<Rightarrow> 's option \<Rightarrow> int
     \<Rightarrow> py_error + ('s option \<times> 32 word list)" where
  "get_soft_tokens params shard_xmap sp sp_length =
     bind_result
       (case sp of
          None \<Rightarrow> bind_result (soft_placeholder params) (\<lambda>tensor. Inr (Some (shard_xmap tensor)))
        | Some s \<Rightarrow> Inr (Some s))
       (\<lambda>sp'.
     bind_result (getitem params ''n_vocab'') (\<lambda>n_vocab.
     bind_result (getitem params ''n_vocab_padding'') (\<lambda>n_vocab_padding.
     Inr (sp', np_arange_uint32 (n_vocab + n_vocab_padding)
                 (n_vocab + n_vocab_padding + sp_length)))))"

section \<open>Results\<close>

text \<open>
  C8. The probe sets the flag exactly when the declared dtype of the source storage is
  32-bit float and the shape has two or more dimensions, never clears it, and returns
  what the original rebuild operation returns on the same arguments. The declared dtype
  is the storage's own dtype for a plain storage; for a lazy tensor it is the dtype
  attribute of its storage class when that is a dtype, and the dtype of an instance of the
  class otherwise.
\<close>

theorem new_rebuild_tensor_probe:
  "new_rebuild_tensor old_rebuild fl (Storage d) off shp stride =
     (fl \<or> (d = Float32 \<and> 2 \<le> length shp),
      old_rebuild (Storage d) off shp stride)
   \<and> new_rebuild_tensor old_rebuild fl
       (LazyTensor \<lparr>class_dtype = Some d, instance_dtype = i\<rparr>) off shp stride =
     (fl \<or> (d = Float32 \<and> 2 \<le> length shp),
      old_rebuild (LazyTensor \<lparr>class_dtype = Some d, instance_dtype = i\<rparr>) off shp stride)
   \<and> new_rebuild_tensor old_rebuild fl
       (LazyTensor \<lparr>class_dtype = None, instance_dtype = i\<rparr>) off shp stride =
     (fl \<or> (i = Float32 \<and> 2 \<le> length shp),
      old_rebuild (LazyTensor \<lparr>class_dtype = None, instance_dtype = i\<rparr>) off shp stride)"
  by (auto simp: new_rebuild_tensor_def Let_def)

text \<open>
  A float32 matrix sets the flag, a float32 vector and a float16 matrix leave it as it
  was, and a flag that is set stays set.
\<close>

lemma new_rebuild_tensor_examples:
  "fst (new_rebuild_tensor old_rebuild False (Storage Float32) 0 [4, 4] [4, 1]) = True"
  "fst (new_rebuild_tensor old_rebuild False (Storage Float32) 0 [4] [1]) = False"
  "fst (new_rebuild_tensor old_rebuild False (Storage Float16) 0 [4, 4] [4, 1]) = False"
  "fst (new_rebuild_tensor old_rebuild True (Storage Float16) 0 [4] [1]) = True"
  "fst (new_rebuild_tensor old_rebuild False
          (LazyTensor \<lparr>class_dtype = None, instance_dtype = Float32\<rparr>) 0 [4, 4] [4, 1]) = True"
  by (simp_all add: new_rebuild_tensor_def Let_def)

text \<open>
  C7. The dictionary's \<open>sampler_order\<close> entry is the configured order itself, whatever
  its length: the order with stage 6 in front is built and not returned.
\<close>

theorem mtj_settings_callback_sampler_order:
  "map_of (mtj_settings_callback vars) ''sampler_order'' = Some (SList (sampler_order vars))"
  by (simp add: mtj_settings_callback_def Let_def)

text \<open>For the six stages 0, 1, 2, 3, 4, 5 the entry is these six stages.\<close>

lemma mtj_settings_callback_six_stages:
  "map_of (mtj_settings_callback
      \<lparr>sampler_order = [0, 1, 2, 3, 4, 5], top_p = 1, temp = 1, top_k = 0, tfs = 1,
       typical = 1, top_a = 0, rep_pen = 1, rep_pen_slope = 0, rep_pen_range = 0\<rparr>)
     ''sampler_order'' = Some (SList [0, 1, 2, 3, 4, 5])"
  by (simp add: mtj_settings_callback_def)

text \<open>
  C9. Saving an unsharded model tries \<open>pytorch_model.bin\<close> first and
  \<open>model.safetensors\<close> second, whatever the first attempt gave: an exception of the first
  attempt is dropped, and the outcome of the whole loop is the outcome of the attempt on
  \<open>model.safetensors\<close>, so only a failure on that name propagates.
\<close>

theorem save_unsharded_fallback:
  "save_unsharded mv fs =
     mv ''model.safetensors'' (case mv WEIGHTS_NAME fs of Inl e \<Rightarrow> fs | Inr fs1 \<Rightarrow> fs1)"
  by (simp add: save_unsharded_def WEIGHTS_NAME_def split: sum.splits)

text \<open>
  The second name is tried after a first name that succeeded too: a cache that holds
  \<open>pytorch_model.bin\<close> and no \<open>model.safetensors\<close> makes the save raise.
\<close>

lemma save_unsharded_only_bin:
  "save_unsharded hf_hub_download_move
     \<lparr>cache = [''pytorch_model.bin'' \<mapsto> b], local_path = Map.empty\<rparr>
   = Inl (OtherException ''model.safetensors'')"
  by (simp add: save_unsharded_def WEIGHTS_NAME_def hf_hub_download_move_def)

text \<open>
  C1, as stated, fails: with no accelerator, split placement configured and no disk
  blocks, the model is placed on the CPU in full precision; no block is moved.
\<close>

theorem final_placement_cpu_counterexample:
  "final_placement \<lparr>hascuda = False, usegpu = False, breakmodel = True, lazy_load = True,
       disk_blocks = 0\<rparr> = Inr [To Cpu, FloatOp]
   \<and> final_placement \<lparr>hascuda = False, usegpu = False, breakmodel = True, lazy_load = True,
       disk_blocks = 0\<rparr> \<noteq> Inr [MoveToDevices]"
  by (simp add: final_placement_def)

text \<open>
  C1, amended. With an accelerator and VRAM-only use the model is halved and moved to the
  accelerator, whatever the split flag says. Otherwise, with an accelerator, split
  placement and lazy loading, the blocks are moved by \<open>_move_to_devices\<close>. Otherwise, when
  neither of these two cases applies (no accelerator, or neither flag) and disk blocks
  were allocated, the blocks are moved by \<open>_move_to_devices\<close>; with no disk blocks the
  model goes to the CPU in float32.
\<close>

theorem final_placement_priority:
  "(hascuda v \<and> usegpu v \<longrightarrow> final_placement v = Inr [Half, To GpuDevice]) \<and>
   (hascuda v \<and> \<not> usegpu v \<and> breakmodel v \<and> lazy_load v
      \<longrightarrow> final_placement v = Inr [MoveToDevices]) \<and>
   (\<not> (hascuda v \<and> usegpu v) \<and> \<not> (hascuda v \<and> breakmodel v) \<and> disk_blocks v > 0
      \<longrightarrow> final_placement v = Inr [MoveToDevices]) \<and>
   (\<not> (hascuda v \<and> usegpu v) \<and> \<not> (hascuda v \<and> breakmodel v) \<and> \<not> disk_blocks v > 0
      \<longrightarrow> final_placement v = Inr [To Cpu, FloatOp])"
  by (auto simp: final_placement_def)

theorem final_placement_priority_witness:
  "final_placement \<lparr>hascuda = True, usegpu = True, breakmodel = True, lazy_load = True,
       disk_blocks = 2\<rparr> = Inr [Half, To GpuDevice] \<and>
   final_placement \<lparr>hascuda = True, usegpu = False, breakmodel = True, lazy_load = True,
       disk_blocks = 2\<rparr> = Inr [MoveToDevices] \<and>
   final_placement \<lparr>hascuda = False, usegpu = True, breakmodel = True, lazy_load = False,
       disk_blocks = 2\<rparr> = Inr [MoveToDevices] \<and>
   final_placement \<lparr>hascuda = True, usegpu = False, breakmodel = False, lazy_load = False,
       disk_blocks = 0\<rparr> = Inr [To Cpu, FloatOp]"
  using
    final_placement_priority [of "\<lparr>hascuda = True, usegpu = True, breakmodel = True,
       lazy_load = True, disk_blocks = 2\<rparr>"]
    final_placement_priority [of "\<lparr>hascuda = True, usegpu = False, breakmodel = True,
       lazy_load = True, disk_blocks = 2\<rparr>"]
    final_placement_priority [of "\<lparr>hascuda = False, usegpu = True, breakmodel = True,
       lazy_load = False, disk_blocks = 2\<rparr>"]
    final_placement_priority [of "\<lparr>hascuda = True, usegpu = False, breakmodel = False,
       lazy_load = False, disk_blocks = 0\<rparr>"]
  by simp

text \<open>
  The split branch with lazy loading off reads the unassigned local \<open>model\<close> and raises.
\<close>

lemma final_placement_split_eager:
  "final_placement \<lparr>hascuda = True, usegpu = False, breakmodel = True, lazy_load = False,
       disk_blocks = 0\<rparr> = Inl (UnboundLocalError ''model'')"
  by (simp add: final_placement_def)

text \<open>
  C2. With \<open>save_model\<close> requested, the fp32 flag set and no disk blocks, the save step
  raises at \<open>model = model.half()\<close>: nothing is converted and nothing is written, for
  every shard count, index and cache.
\<close>

theorem save_downloaded_model_fp32:
  "save_downloaded_model True True 0 num_shards filenames fs = Inl (UnboundLocalError ''model'')"
  by (simp add: save_downloaded_model_def)

text \<open>
  C3, as stated, fails: for the vocabulary \<open><pad>\<close> 0, \<open>hello\<close> 1, \<open></s>\<close> 2, a model
  type outside the exclusion list and a newline mode other than \<open>s\<close>, the derived list
  is [[0], [2]]: token 2 is suppressed.
\<close>

theorem derive_badwordsids_eos_counterexample:
  "badwordsids (derive_badwordsids
      \<lparr>badwordsids = [[13]], badwordsids_is_default = True, model_type = ''opt'',
       newlinemode = ''n''\<rparr>
      [(''<pad>'', 0), (''hello'', 1), (''</s>'', 2)]) = [[0], [2]]"
  by (simp add: derive_badwordsids_def any_special_def)

lemma any_special_iff: "any_special k \<longleftrightarrow> (\<exists>c \<in> set ''<>[]''. c \<in> set k)"
  unfolding any_special_def list_ex_iff by simp

text \<open>
  C3, amended. When the suppression list is still the default and the model type is none
  of gpt2, gpt\_neo, gptj, the derived list is, in vocabulary order, the singleton group
  of the id of every token that contains one of the characters \<open><\<close>, \<open>>\<close>, \<open>[\<close>, \<open>]\<close>,
  except that the token \<open></s>\<close> is left out exactly when the newline mode is \<open>s\<close>.
\<close>

theorem derive_badwordsids_default:
  assumes "badwordsids_is_default vars"
    and "model_type vars \<notin> {''gpt2'', ''gpt_neo'', ''gptj''}"
  shows "badwordsids (derive_badwordsids vars vocab) =
     map (\<lambda>(k, v). [v])
       (filter (\<lambda>(k, v). (\<exists>c \<in> set ''<>[]''. c \<in> set k)
                 \<and> \<not> (newlinemode vars = ''s'' \<and> k = ''</s>'')) vocab)"
proof -
  have m: "model_type vars \<notin> set [''gpt2'', ''gpt_neo'', ''gptj'']"
    using assms(2) by simp
  have f: "filter (\<lambda>(k, v). newlinemode vars \<noteq> ''s'' \<or> k \<noteq> ''</s>'')
             (filter (\<lambda>(k, v). any_special k) vocab) =
           filter (\<lambda>(k, v). (\<exists>c \<in> set ''<>[]''. c \<in> set k)
                 \<and> \<not> (newlinemode vars = ''s'' \<and> k = ''</s>'')) vocab"
    unfolding filter_filter any_special_iff
    by (rule filter_cong) auto
  show ?thesis
    unfolding derive_badwordsids_def using assms(1) m f by simp
qed

theorem derive_badwordsids_default_witness:
  "badwordsids (derive_badwordsids
      \<lparr>badwordsids = [[13]], badwordsids_is_default = True, model_type = ''opt'',
       newlinemode = ''s''\<rparr>
      [(''<pad>'', 0), (''hello'', 1), (''</s>'', 2)]) = [[0]]
   \<and> badwordsids (derive_badwordsids
      \<lparr>badwordsids = [[13]], badwordsids_is_default = True, model_type = ''llama'',
       newlinemode = ''ns''\<rparr>
      [(''<pad>'', 0), (''hello'', 1), (''</s>'', 2)]) = [[0], [2]]"
  using
    derive_badwordsids_default [of "\<lparr>badwordsids = [[13]], badwordsids_is_default = True,
       model_type = ''opt'', newlinemode = ''s''\<rparr>"
       "[(''<pad>'', 0), (''hello'', 1), (''</s>'', 2)]"]
    derive_badwordsids_default [of "\<lparr>badwordsids = [[13]], badwordsids_is_default = True,
       model_type = ''llama'', newlinemode = ''ns''\<rparr>"
       "[(''<pad>'', 0), (''hello'', 1), (''</s>'', 2)]"]
  by simp


text \<open>
  Rounding up: \<open>seq - seq mod (- cores)\<close> is the least multiple of \<open>cores\<close> that is at
  least \<open>seq\<close>.
\<close>

lemma round_up_bounds:
  fixes seq cores :: int
  assumes "0 < cores"
  shows "seq \<le> seq - seq mod (- cores)" and "seq - seq mod (- cores) < seq + cores"
    and "cores dvd seq - seq mod (- cores)"
proof -
  have neg: "- cores < 0" using assms by simp
  have "seq mod (- cores) \<le> 0" using neg by (rule neg_mod_sign)
  then show "seq \<le> seq - seq mod (- cores)" by simp
  have "- cores < seq mod (- cores)" using neg by (rule neg_mod_bound)
  then show "seq - seq mod (- cores) < seq + cores" by simp
  have "seq - seq mod (- cores) = (- cores) * (seq div (- cores))"
    by (simp add: minus_mod_eq_mult_div)
  then show "cores dvd seq - seq mod (- cores)" by simp
qed

lemma round_up_least:
  fixes seq cores m :: int
  assumes "0 < cores" "cores dvd m" "seq \<le> m"
  shows "seq - seq mod (- cores) \<le> m"
proof (rule ccontr)
  assume "\<not> seq - seq mod (- cores) \<le> m"
  then have lt: "m < seq - seq mod (- cores)" by simp
  obtain j where j: "m = cores * j" using assms(2) by (auto elim: dvdE)
  obtain k where k: "seq - seq mod (- cores) = cores * k"
    using round_up_bounds(3) [OF assms(1), of seq] by (auto elim: dvdE)
  from lt j k have "cores * j < cores * k" by simp
  then have "j < k" using assms(1) by (simp add: mult_less_cancel_left_pos)
  then have "j + 1 \<le> k" by simp
  then have "cores * (j + 1) \<le> cores * k" using assms(1) by (simp add: mult_le_cancel_left_pos)
  then have "m + cores \<le> seq - seq mod (- cores)" using j k by (simp add: algebra_simps)
  moreover have "seq - seq mod (- cores) < seq + cores"
    using round_up_bounds(2) [OF assms(1)] .
  ultimately show False using assms(3) by simp
qed

lemma padded_placeholder_value:
  assumes c: "params ''cores_per_replica'' = Some cores"
    and s: "params ''seq'' = Some seq"
    and w: "embed_width params = Inr width"
    and pos: "0 < cores" "0 < seq" "0 < width"
  shows "padded_placeholder params =
           Inr \<lparr>t_shape = [nat (seq - seq mod (- cores)), nat width],
                t_data = replicate (nat (seq - seq mod (- cores)) * nat width) 0\<rparr>"
proof -
  let ?P = "seq - seq mod (- cores)"
  have P1: "1 \<le> ?P" using round_up_bounds(1) [OF pos(1), of seq] pos(2) by simp
  have n: "Suc (nat (?P - 1)) = nat ?P" using P1 by simp
  have rep: "replicate (nat width) (0::real) @ replicate (nat (?P - 1) * nat width) 0 =
             replicate (nat ?P * nat width) 0"
    unfolding replicate_add [symmetric] n [symmetric] by simp
  show ?thesis
    using pos P1 n rep
    by (simp add: padded_placeholder_def bind_result_def w getitem_def c s np_zeros2_def
        py_mod_def np_pad_rows_def Let_def)
qed

lemma soft_placeholder_value:
  assumes c: "params ''cores_per_replica'' = Some cores"
    and s: "params ''seq'' = Some seq"
    and w: "embed_width params = Inr width"
    and pos: "0 < cores" "0 < seq" "0 < width"
  shows "soft_placeholder params =
           Inr \<lparr>t_shape = [nat cores, nat ((seq - seq mod (- cores)) div cores), nat width],
                t_data = replicate (nat (seq - seq mod (- cores)) * nat width) 0\<rparr>"
proof -
  let ?P = "seq - seq mod (- cores)"
  have P1: "1 \<le> ?P" using round_up_bounds(1) [OF pos(1), of seq] pos(2) by simp
  obtain k where k: "?P = cores * k"
    using round_up_bounds(3) [OF pos(1), of seq] by (auto elim: dvdE)
  have k0: "0 \<le> k" using P1 k pos(1) by (smt (verit) mult_less_0_iff zero_less_mult_iff)
  have nP: "nat ?P = nat cores * nat k" using k k0 pos(1) by (simp add: nat_mult_distrib)
  have d: "?P div cores = k" using k pos(1) by simp
  have known: "nat cores * nat width \<noteq> 0" using pos by simp
  have m: "(nat ?P * nat width) mod (nat cores * nat width) = 0"
    unfolding nP by (simp add: mult.assoc mult.left_commute)
  have q: "(nat ?P * nat width) div (nat cores * nat width) = nat k"
  proof -
    have "nat ?P * nat width = nat k * (nat cores * nat width)" unfolding nP by simp
    then show ?thesis using known by (metis nonzero_mult_div_cancel_right)
  qed
  show ?thesis
    using pos known m q d
    by (simp add: soft_placeholder_def bind_result_def padded_placeholder_value [OF assms]
        getitem_def c w np_reshape3_def Let_def)
qed


text \<open>
  C6. When no soft prompt is configured (\<open>sp\<close> is \<open>None\<close>), the core count, \<open>seq\<close> and
  the embedding width (\<open>d_embed\<close>, or \<open>d_model\<close> when \<open>d_embed\<close> is absent) are
  positive, \<open>get_soft_tokens\<close> sets \<open>sp\<close> to the sharding of a zero tensor of shape
  (cores, rows div cores, width), which is the reshape of the placeholder padded to
  \<open>rows = seq - seq mod (- cores)\<close> rows of that width; \<open>rows\<close> is the least multiple of
  the core count that is at least \<open>seq\<close>. For 8 cores and \<open>seq\<close> 20 there are 24 rows.
\<close>

theorem get_soft_tokens_placeholder:
  assumes "params ''cores_per_replica'' = Some cores"
    and "params ''seq'' = Some seq"
    and "params ''d_model'' = Some d_model"
    and "width = (case params ''d_embed'' of Some d_embed \<Rightarrow> d_embed | None \<Rightarrow> d_model)"
    and "0 < cores" and "0 < seq" and "0 < width"
    and "params ''n_vocab'' = Some n_vocab"
    and "params ''n_vocab_padding'' = Some n_vocab_padding"
  shows "get_soft_tokens params shard_xmap None sp_length =
           Inr (Some (shard_xmap
                  \<lparr>t_shape = [nat cores, nat ((seq - seq mod (- cores)) div cores), nat width],
                   t_data = replicate (nat (seq - seq mod (- cores)) * nat width) 0\<rparr>),
                np_arange_uint32 (n_vocab + n_vocab_padding)
                  (n_vocab + n_vocab_padding + sp_length))
     \<and> padded_placeholder params =
           Inr \<lparr>t_shape = [nat (seq - seq mod (- cores)), nat width],
                t_data = replicate (nat (seq - seq mod (- cores)) * nat width) 0\<rparr>
     \<and> cores dvd seq - seq mod (- cores)
     \<and> seq \<le> seq - seq mod (- cores)
     \<and> (\<forall>m. cores dvd m \<and> seq \<le> m \<longrightarrow> seq - seq mod (- cores) \<le> m)"
proof -
  have w: "embed_width params = Inr width"
    using assms(3,4) by (simp add: embed_width_def bind_result_def getitem_def)
  note pos = assms(5,6,7)
  have g: "get_soft_tokens params shard_xmap None sp_length =
           Inr (Some (shard_xmap
                  \<lparr>t_shape = [nat cores, nat ((seq - seq mod (- cores)) div cores), nat width],
                   t_data = replicate (nat (seq - seq mod (- cores)) * nat width) 0\<rparr>),
                np_arange_uint32 (n_vocab + n_vocab_padding)
                  (n_vocab + n_vocab_padding + sp_length))"
    by (simp add: get_soft_tokens_def bind_result_def getitem_def assms(8,9)
        soft_placeholder_value [OF assms(1,2) w pos])
  show ?thesis
    using g padded_placeholder_value [OF assms(1,2) w pos]
      round_up_bounds(1,3) [OF assms(5), of seq] round_up_least [OF assms(5)]
    by blast
qed

theorem get_soft_tokens_placeholder_witness:
  "get_soft_tokens
     [''cores_per_replica'' \<mapsto> 8, ''seq'' \<mapsto> 20, ''d_model'' \<mapsto> 2,
      ''n_vocab'' \<mapsto> 50257, ''n_vocab_padding'' \<mapsto> 143] (\<lambda>t. t) None 0 =
     Inr (Some \<lparr>t_shape = [8, 3, 2], t_data = replicate 48 0\<rparr>, [])
   \<and> padded_placeholder
     [''cores_per_replica'' \<mapsto> 8, ''seq'' \<mapsto> 20, ''d_model'' \<mapsto> 2,
      ''n_vocab'' \<mapsto> 50257, ''n_vocab_padding'' \<mapsto> 143] =
     Inr \<lparr>t_shape = [24, 2], t_data = replicate 48 0\<rparr>
   \<and> get_soft_tokens
     [''cores_per_replica'' \<mapsto> 8, ''seq'' \<mapsto> 20, ''d_model'' \<mapsto> 2, ''d_embed'' \<mapsto> 3,
      ''n_vocab'' \<mapsto> 50257, ''n_vocab_padding'' \<mapsto> 143] (\<lambda>t. t) None 0 =
     Inr (Some \<lparr>t_shape = [8, 3, 3], t_data = replicate 72 0\<rparr>, [])
   \<and> padded_placeholder
     [''cores_per_replica'' \<mapsto> 8, ''seq'' \<mapsto> 20, ''d_model'' \<mapsto> 2, ''d_embed'' \<mapsto> 3,
      ''n_vocab'' \<mapsto> 50257, ''n_vocab_padding'' \<mapsto> 143] =
     Inr \<lparr>t_shape = [24, 3], t_data = replicate 72 0\<rparr>
   \<and> (8::int) dvd 24 \<and> (20::int) \<le> 24"
proof -
  define p1 where "p1 = [''cores_per_replica'' \<mapsto> 8, ''seq'' \<mapsto> 20, ''d_model'' \<mapsto> 2,
      ''n_vocab'' \<mapsto> 50257, ''n_vocab_padding'' \<mapsto> (143::int)]"
  define p2 where "p2 = [''cores_per_replica'' \<mapsto> 8, ''seq'' \<mapsto> 20, ''d_model'' \<mapsto> 2,
      ''d_embed'' \<mapsto> 3, ''n_vocab'' \<mapsto> 50257, ''n_vocab_padding'' \<mapsto> (143::int)]"
  have ar: "(20::int) - 20 mod (- 8) = 24" by simp
  have em: "np_arange_uint32 (50257 + 143) (50257 + 143 + 0) = []"
    by (simp add: np_arange_uint32_def)
  have a: "p1 ''cores_per_replica'' = Some 8" "p1 ''seq'' = Some 20"
    "p1 ''d_model'' = Some 2"
    "(2::int) = (case p1 ''d_embed'' of Some d_embed \<Rightarrow> d_embed | None \<Rightarrow> 2)"
    "(0::int) < 8" "(0::int) < 20" "(0::int) < 2"
    "p1 ''n_vocab'' = Some 50257" "p1 ''n_vocab_padding'' = Some 143"
    by (simp_all add: p1_def)
  have b: "p2 ''cores_per_replica'' = Some 8" "p2 ''seq'' = Some 20"
    "p2 ''d_model'' = Some 2"
    "(3::int) = (case p2 ''d_embed'' of Some d_embed \<Rightarrow> d_embed | None \<Rightarrow> 2)"
    "(0::int) < 8" "(0::int) < 20" "(0::int) < 3"
    "p2 ''n_vocab'' = Some 50257" "p2 ''n_vocab_padding'' = Some 143"
    by (simp_all add: p2_def)
  have "get_soft_tokens p1 (\<lambda>t. t) None 0 =
          Inr (Some \<lparr>t_shape = [8, 3, 2], t_data = replicate 48 0\<rparr>, [])
      \<and> padded_placeholder p1 = Inr \<lparr>t_shape = [24, 2], t_data = replicate 48 0\<rparr>
      \<and> get_soft_tokens p2 (\<lambda>t. t) None 0 =
          Inr (Some \<lparr>t_shape = [8, 3, 3], t_data = replicate 72 0\<rparr>, [])
      \<and> padded_placeholder p2 = Inr \<lparr>t_shape = [24, 3], t_data = replicate 72 0\<rparr>
      \<and> (8::int) dvd 24 \<and> (20::int) \<le> 24"
    using get_soft_tokens_placeholder [OF a, of "\<lambda>t. t" 0]
      get_soft_tokens_placeholder [OF b, of "\<lambda>t. t" 0]
    unfolding ar em by simp
  then show ?thesis unfolding p1_def p2_def .
qed

text \<open>With a soft prompt configured no placeholder is made: \<open>sp\<close> stays as it is.\<close>

lemma get_soft_tokens_configured:
  assumes "get_soft_tokens params shard_xmap (Some s) sp_length = Inr (sp', soft_tokens)"
  shows "sp' = Some s"
  using assms
  by (auto simp: get_soft_tokens_def bind_result_def split: sum.splits)

text \<open>Inside the range of the type, \<open>np.arange\<close> holds the integers themselves.\<close>

lemma uint_arange:
  assumes "0 \<le> start" and "stop \<le> 2 ^ 32"
  shows "map uint (np_arange_uint32 start stop) = [start..stop - 1]"
proof -
  have "map uint (map (word_of_int :: int \<Rightarrow> 32 word) [start..stop - 1]) = map (\<lambda>x. x) [start..stop - 1]"
    unfolding map_map
  proof (rule map_cong [OF refl])
    fix x assume "x \<in> set [start..stop - 1]"
    then have "0 \<le> x" "x < 2 ^ 32" using assms by auto
    then show "(uint \<circ> (word_of_int :: int \<Rightarrow> 32 word)) x = x"
      by (simp add: uint_word_of_int take_bit_eq_mod)
  qed
  then show ?thesis by (simp add: np_arange_uint32_def)
qed

text \<open>
  C10. Whenever \<open>get_soft_tokens\<close> returns, and the ids fit 32 unsigned bits, the
  returned array is the \<open>sp_length\<close> consecutive integers from
  \<open>n_vocab + n_vocab_padding\<close> on, so every soft token id is at or above the padded
  vocabulary size.
\<close>

theorem get_soft_tokens_range:
  assumes ret: "get_soft_tokens params shard_xmap sp sp_length = Inr (sp', soft_tokens)"
    and nv: "params ''n_vocab'' = Some n_vocab"
    and np: "params ''n_vocab_padding'' = Some n_vocab_padding"
    and lo: "0 \<le> n_vocab + n_vocab_padding"
    and hi: "n_vocab + n_vocab_padding + sp_length \<le> 2 ^ 32"
  shows "map uint soft_tokens =
           [n_vocab + n_vocab_padding .. n_vocab + n_vocab_padding + sp_length - 1]
     \<and> int (length soft_tokens) = max 0 sp_length
     \<and> (\<forall>t \<in> set soft_tokens. n_vocab + n_vocab_padding \<le> uint t)"
proof -
  let ?start = "n_vocab + n_vocab_padding"
  have toks: "soft_tokens = np_arange_uint32 ?start (?start + sp_length)"
    using ret nv np
    by (auto simp: get_soft_tokens_def bind_result_def getitem_def split: sum.splits option.splits)
  have m: "map uint soft_tokens = [?start .. ?start + sp_length - 1]"
    unfolding toks using uint_arange [OF lo hi] .
  have "length (map uint soft_tokens) = length [?start .. ?start + sp_length - 1]"
    using m by simp
  then have l: "int (length soft_tokens) = max 0 sp_length" by simp
  have b: "\<forall>t \<in> set soft_tokens. ?start \<le> uint t"
  proof
    fix t assume "t \<in> set soft_tokens"
    then have "uint t \<in> set (map uint soft_tokens)" by simp
    then show "?start \<le> uint t" unfolding m by simp
  qed
  show ?thesis using m l b by blast
qed


theorem get_soft_tokens_range_witness:
  "get_soft_tokens [''n_vocab'' \<mapsto> 50257, ''n_vocab_padding'' \<mapsto> 143] (\<lambda>t. 0::nat) (Some 0) 3
     = Inr (Some 0, [50400, 50401, 50402])
   \<and> map uint [50400, 50401, 50402 :: 32 word] = [50400 .. 50402]
   \<and> int (length [50400, 50401, 50402 :: 32 word]) = 3
   \<and> 50400 \<le> uint (50400 :: 32 word)"
proof -
  let ?params = "[''n_vocab'' \<mapsto> 50257, ''n_vocab_padding'' \<mapsto> (143::int)]"
  have ret: "get_soft_tokens ?params (\<lambda>t. 0::nat) (Some 0) 3
     = Inr (Some 0, [50400, 50401, 50402])"
    by (simp add: get_soft_tokens_def bind_result_def getitem_def np_arange_uint32_def
        upto.simps)
  have nv: "?params ''n_vocab'' = Some 50257" by simp
  have np: "?params ''n_vocab_padding'' = Some 143" by simp
  have lo: "(0::int) \<le> 50257 + 143" by simp
  have hi: "(50257::int) + 143 + 3 \<le> 2 ^ 32" by simp
  show ?thesis
    using ret get_soft_tokens_range [OF ret nv np lo hi] by simp
qed

text \<open>
  C4. With dynamic scanning on, no abort, generation enabled, the budget not reached and
  a batch that is not empty, the hook does not return: once the new tokens are stored it
  reads the undefined global \<open>past\<close> and raises \<open>NameError\<close>.
\<close>

theorem mtj_stopping_callback_dynamicscan:
  assumes "dynamicscan vars"
    and "\<not> abort vars" and "generating vars"
    and "generated_tkns vars + 1 < genamt vars"
    and "generated \<noteq> []"
    and "length excluded_world_info = length generated"
    and "store_generated generated (seq + n_generated - 1) (generated_tkns vars + 1)
           [0..<nat (numseqs vars)] (lua_generated vars) = Inr tbl"
  shows "mtj_stopping_callback vars seq generated n_generated excluded_world_info
           = Inl (NameError ''past'')"
  using assms
  by (simp add: mtj_stopping_callback_def Let_def split: list.splits)

theorem mtj_stopping_callback_dynamicscan_witness:
  "mtj_stopping_callback
     \<lparr>abort = False, generating = True, regeneration_required = False, generated_tkns = 0,
      genamt = 80, numseqs = 1, dynamicscan = True,
      lua_generated = [1 \<mapsto> Map.empty]\<rparr>
     2 [[5, 6, 7]] 1 [{} :: nat set]
   = Inl (NameError ''past'')"
proof -
  let ?vars = "\<lparr>abort = False, generating = True, regeneration_required = False,
      generated_tkns = 0, genamt = 80, numseqs = 1, dynamicscan = True,
      lua_generated = [1 \<mapsto> Map.empty]\<rparr>"
  have st: "store_generated [[5, 6, 7]] (2 + 1 - 1) (generated_tkns ?vars + 1)
              [0..<nat (numseqs ?vars)] (lua_generated ?vars)
            = Inr [1 \<mapsto> [1 \<mapsto> 7]]"
    by (simp add: np_index2_def np_index_def Let_def)
  show ?thesis
    by (rule mtj_stopping_callback_dynamicscan [OF _ _ _ _ _ _ st]) simp_all
qed

text \<open>
  When the hook returns, the exclusion sets are the ones it received and the halt flag is
  as the three conditions say.
\<close>

lemma mtj_stopping_callback_returns:
  assumes "mtj_stopping_callback vars seq generated n_generated excluded = Inr (vars', ex', regen, halt)"
  shows "ex' = excluded \<and> generated_tkns vars' = generated_tkns vars + 1 \<and>
         halt = (abort vars \<or> \<not> generating vars \<or> generated_tkns vars + 1 \<ge> genamt vars)"
  using assms
  by (auto simp: mtj_stopping_callback_def Let_def split: if_splits sum.splits list.splits)

lemma np_array_shape_dtype:
  "np_array rs dt = Inr a \<Longrightarrow> dtype a = dt"
  by (auto simp: np_array_def split: list.splits if_splits)

text \<open>
  C5. When the score-rewriting hook returns, the returned array has the shape and the
  dtype of the input scores; when the table that the script leaves gives an array of
  another shape, the call fails with an assertion failure.
\<close>

theorem mtj_warper_callback_shape:
  "(mtj_warper_callback execute_genmod bridge scores = Inr (bridge', scores')
      \<longrightarrow> shape scores' = shape scores \<and> dtype scores' = dtype scores) \<and>
   (shape scores \<noteq> [] \<and>
    execute_genmod (bridge\<lparr>logits := lua_table (map lua_table (rows scores)),
                           vocab_size := last (shape scores)\<rparr>) = Inr bridge2 \<and>
    np_array (map table_values (table_values (logits bridge2))) (dtype scores) = Inr rewritten \<and>
    shape rewritten \<noteq> shape scores
      \<longrightarrow> mtj_warper_callback execute_genmod bridge scores = Inl AssertionError)"
  by (auto simp: mtj_warper_callback_def Let_def np_array_shape_dtype
           split: if_splits sum.splits)

theorem mtj_warper_callback_shape_witness:
  "mtj_warper_callback
     (\<lambda>b. Inr (b\<lparr>logits := lua_table (map lua_table [[0, 2], [3, 0]])\<rparr>))
     \<lparr>logits = [], vocab_size = 0\<rparr>
     \<lparr>shape = [2, 2], dtype = NpFloat32, rows = [[1, 2], [3, 4]]\<rparr>
   = Inr (\<lparr>logits = lua_table (map lua_table [[0, 2], [3, 0]]), vocab_size = 2\<rparr>,
          \<lparr>shape = [2, 2], dtype = NpFloat32, rows = [[0, 2], [3, 0]]\<rparr>)
   \<and> shape \<lparr>shape = [2, 2], dtype = NpFloat32, rows = [[0, 2], [3, 0]]\<rparr> = [2, 2]
   \<and> mtj_warper_callback
     (\<lambda>b. Inr (b\<lparr>logits := lua_table (map lua_table [[0], [3]])\<rparr>))
     \<lparr>logits = [], vocab_size = 0\<rparr>
     \<lparr>shape = [2, 2], dtype = NpFloat32, rows = [[1, 2], [3, 4]]\<rparr>
   = Inl AssertionError"
proof -
  let ?scores = "\<lparr>shape = [2, 2], dtype = NpFloat32, rows = [[1, 2], [3, 4]]\<rparr>"
  let ?bridge = "\<lparr>logits = [], vocab_size = 0\<rparr>"
  let ?keep = "\<lambda>b. Inr (b\<lparr>logits := lua_table (map lua_table [[0, 2], [3, 0 :: real]])\<rparr>)
                 :: py_error + lua_koboldbridge"
  let ?drop = "\<lambda>b. Inr (b\<lparr>logits := lua_table (map lua_table [[0], [3 :: real]])\<rparr>)
                 :: py_error + lua_koboldbridge"
  let ?out = "\<lparr>shape = [2, 2], dtype = NpFloat32, rows = [[0, 2], [3, 0]]\<rparr>"
  let ?b1 = "\<lparr>logits = lua_table (map lua_table [[0, 2], [3, 0 :: real]]), vocab_size = 2\<rparr>"
  let ?b2 = "\<lparr>logits = lua_table (map lua_table [[0], [3 :: real]]), vocab_size = 2\<rparr>"
  let ?short = "\<lparr>shape = [2, 1], dtype = NpFloat32, rows = [[0], [3]]\<rparr>"
  have run: "mtj_warper_callback ?keep ?bridge ?scores = Inr (?b1, ?out)"
    by (simp add: mtj_warper_callback_def Let_def np_array_def lua_table_def table_values_def)
  have sh: "shape ?out = shape ?scores \<and> dtype ?out = dtype ?scores"
    using mtj_warper_callback_shape [of ?keep ?bridge ?scores ?b1 ?out] run by blast
  have ne: "shape ?scores \<noteq> []" by simp
  have g: "?drop (?bridge\<lparr>logits := lua_table (map lua_table (rows ?scores)),
                          vocab_size := last (shape ?scores)\<rparr>) = Inr ?b2"
    by simp
  have arr: "np_array (map table_values (table_values (logits ?b2))) (dtype ?scores) = Inr ?short"
    by (simp add: np_array_def lua_table_def table_values_def)
  have diff: "shape ?short \<noteq> shape ?scores" by simp
  have fail: "mtj_warper_callback ?drop ?bridge ?scores = Inl AssertionError"
    using mtj_warper_callback_shape [of ?drop ?bridge ?scores _ _ ?b2 ?short] ne g arr diff
    by blast
  show ?thesis using run sh fail by simp
qed

end
